theory Spec2Isabelle
  imports Main "HOL-Library.Word"
begin

section \<open>Strings of the host language\<close>

text \<open>
  A string of the source is a sequence of UTF-16 code units. Literals of the source that
  are plain ASCII are written with \<open>js\<close>; the Ge'ez literals are given by their code
  units (every Ethiopic letter is one unit of the basic plane).
\<close>

type_synonym jsstring = "16 word list"

definition js :: "string \<Rightarrow> jsstring" where
  "js s = map of_char s"

text \<open>
  \<open>String.prototype.trim\<close> strips, at both ends, the code units that the language
  standard calls WhiteSpace or LineTerminator.
\<close>

definition isWhiteSpace :: "16 word \<Rightarrow> bool" where
  "isWhiteSpace c \<longleftrightarrow>
     c \<in> set [0x0009, 0x000A, 0x000B, 0x000C, 0x000D, 0x0020, 0x00A0, 0x1680,
              0x2000, 0x2001, 0x2002, 0x2003, 0x2004, 0x2005, 0x2006, 0x2007,
              0x2008, 0x2009, 0x200A, 0x2028, 0x2029, 0x202F, 0x205F, 0x3000, 0xFEFF]"

definition trim :: "jsstring \<Rightarrow> jsstring" where
  "trim s = rev (dropWhile isWhiteSpace (rev (dropWhile isWhiteSpace s)))"

text \<open>
  \<open>Number.prototype.toString\<close> on the integers that \<open>Date.now()\<close> and
  \<open>Date.now() + 1\<close> produce: the decimal numeral, with a sign for a clock set before
  the epoch.
\<close>

fun digits :: "nat \<Rightarrow> jsstring" where
  "digits n = (if n < 10 then [of_nat (48 + n)]
               else digits (n div 10) @ [of_nat (48 + n mod 10)])"

declare digits.simps [simp del]

definition toString :: "int \<Rightarrow> jsstring" where
  "toString n = (if n < 0 then 0x002D # digits (nat (- n)) else digits (nat n))"

section \<open>Data model\<close>

datatype role = User | Model

record Message =
  role :: role
  content :: jsstring
  msg_id :: jsstring

text \<open>
  The conversation handle belongs to the client library of the remote service. It is
  modelled by what this program gives it: the configuration passed to
  \<open>ai.chats.create\<close> and the texts passed, in order, to its \<open>sendMessage\<close>. The
  credential comes from the build environment, is the same at every creation, and is
  left out.
\<close>

record Chat =
  model :: jsstring
  systemInstruction :: jsstring
  sent :: "jsstring list"

definition SYSTEM_INSTRUCTION :: jsstring where
  "SYSTEM_INSTRUCTION =
     js ''You are '' @
     [0x0022, 0x1275, 0x130D, 0x122D, 0x129B] @
     js '' AI'' @
     [0x0022] @
     js '' (Tigrinya AI), a helpful and friendly assistant. '' @
     [0x000A] @
     js ''Your primary language is Tigrinya ('' @
     [0x1275, 0x130D, 0x122D, 0x129B] @
     js ''). '' @
     [0x000A] @
     js ''You should respond in Tigrinya by default, using the Ge'' @
     [0x0027] @
     js ''ez script. '' @
     [0x000A] @
     js ''If a user speaks to you in English or another language, you '' @
     js ''can respond in that language but try to offer a Tigrinya tra'' @
     js ''nslation if relevant. '' @
     [0x000A] @
     js ''Be culturally respectful and knowledgeable about Eritrean an'' @
     js ''d Ethiopian culture where Tigrinya is spoken.'' @
     [0x000A] @
     js ''Keep your responses concise and clear.''"

definition chats_create :: Chat where
  "chats_create =
     \<lparr>model = js ''gemini-3-flash-preview'',
      systemInstruction = SYSTEM_INSTRUCTION,
      sent = []\<rparr>"

definition sendMessage :: "jsstring \<Rightarrow> Chat \<Rightarrow> Chat" where
  "sendMessage message c = c\<lparr>sent := sent c @ [message]\<rparr>"

text \<open>
  The component state of \<open>App\<close>: the three \<open>useState\<close> cells and the \<open>chatInstance\<close>
  reference. \<open>inFlight\<close> is not a variable of the source: it counts the invocations
  of \<open>handleSend\<close> that are suspended at the \<open>await\<close> of the remote call.
\<close>

record app =
  messages :: "Message list"
  input :: jsstring
  isLoading :: bool
  chatInstance :: Chat
  inFlight :: nat

text \<open>
  How the awaited call ends: it resolves with a response whose \<open>text\<close> is a string or
  undefined, or it rejects.
\<close>

datatype outcome = Resolved "jsstring option" | Rejected

datatype error = RemoteCallFailed

section \<open>Fixed strings of the view\<close>

text \<open>The apology used when the response carries no text.\<close>

definition fallback_no_text :: jsstring where
  "fallback_no_text =
     [0x12ED, 0x1255, 0x122C, 0x1273, 0x1361, 0x0020, 0x1338, 0x1308, 0x121D, 0x0020,
      0x1270, 0x1348, 0x1322, 0x1229, 0x1362]"

text \<open>The apology used when the call throws.\<close>

definition fallback_no_server :: jsstring where
  "fallback_no_server =
     [0x12ED, 0x1255, 0x122C, 0x1273, 0x1361, 0x0020, 0x121D, 0x1235, 0x0020, 0x1230,
      0x122D, 0x1268, 0x122D, 0x0020, 0x121D, 0x122D, 0x12BB, 0x1265, 0x0020, 0x12A3,
      0x12ED, 0x1270, 0x12BB, 0x12A5, 0x1208, 0x1295, 0x1362, 0x0020, 0x1260, 0x1303,
      0x12B9, 0x121D, 0x0020, 0x12F0, 0x1213, 0x122D, 0x0020, 0x12F0, 0x130A, 0x121D,
      0x12A9, 0x121D, 0x0020, 0x1348, 0x1275, 0x1291, 0x1362]"

definition suggestions :: "jsstring list" where
  "suggestions =
    [[0x12A8, 0x1218, 0x12ED, 0x0020, 0x12A3, 0x1208, 0x12BB, 0x003F],
     [0x1275, 0x130D, 0x122D, 0x129B, 0x0020, 0x12AD, 0x1218, 0x1203, 0x122D, 0x0020,
      0x12F0, 0x120D, 0x12E8],
     [0x133D, 0x1261, 0x1255, 0x0020, 0x130D, 0x1325, 0x121A, 0x0020, 0x1338, 0x1213,
      0x1348, 0x1208, 0x12ED]]"

section \<open>Handlers\<close>

definition setInput :: "jsstring \<Rightarrow> app \<Rightarrow> app" where
  "setInput v s = s\<lparr>input := v\<rparr>"

text \<open>
  \<open>handleSend\<close> up to its \<open>await\<close>. \<open>now\<close> is the value \<open>Date.now()\<close> returns for the
  user message. The guard is \<open>!input.trim() || isLoading\<close>; the empty string is the only
  falsy string.
\<close>

definition handleSend_begin :: "int \<Rightarrow> app \<Rightarrow> app" where
  "handleSend_begin now s =
     (if trim (input s) = [] \<or> isLoading s then s
      else
        let userMessage = \<lparr>role = User, content = input s, msg_id = toString now\<rparr>
        in s\<lparr>messages := messages s @ [userMessage],
              input := [],
              isLoading := True,
              chatInstance := sendMessage (input s) (chatInstance s),
              inFlight := Suc (inFlight s)\<rparr>)"

text \<open>\<open>response.text || d\<close>: the default replaces undefined and the empty string.\<close>

definition text_or :: "jsstring option \<Rightarrow> jsstring \<Rightarrow> jsstring" where
  "text_or t d = (case t of None \<Rightarrow> d | Some v \<Rightarrow> if v = [] then d else v)"

text \<open>
  The body of the \<open>try\<close> after the \<open>await\<close>: a rejected call throws, a resolved one
  builds the model message. \<open>now\<close> is \<open>Date.now()\<close> at that moment.
\<close>

definition try_body :: "outcome \<Rightarrow> int \<Rightarrow> error + Message" where
  "try_body out now =
     (case out of
        Rejected \<Rightarrow> Inl RemoteCallFailed
      | Resolved t \<Rightarrow>
          Inr \<lparr>role = Model, content = text_or t fallback_no_text,
               msg_id = toString (now + 1)\<rparr>)"

definition errorMessage :: "int \<Rightarrow> Message" where
  "errorMessage now =
     \<lparr>role = Model, content = fallback_no_server, msg_id = toString (now + 1)\<rparr>"

text \<open>
  \<open>handleSend\<close> from the \<open>await\<close> on: \<open>try\<close>, \<open>catch\<close>, \<open>finally\<close>. Both appends are
  functional updates, so they extend the transcript as it is when the call settles.
\<close>

definition handleSend_resume :: "outcome \<Rightarrow> int \<Rightarrow> app \<Rightarrow> app" where
  "handleSend_resume out now s =
     (let s' = (case try_body out now of
                  Inr modelMessage \<Rightarrow> s\<lparr>messages := messages s @ [modelMessage]\<rparr>
                | Inl e \<Rightarrow> s\<lparr>messages := messages s @ [errorMessage now]\<rparr>)
      in s'\<lparr>isLoading := False, inFlight := inFlight s - 1\<rparr>)"

definition clearChat :: "app \<Rightarrow> app" where
  "clearChat s = s\<lparr>messages := [], chatInstance := chats_create\<rparr>"

section \<open>The event loop\<close>

text \<open>
  Every handler runs to its end (or to its \<open>await\<close>) on the single event-loop thread,
  against the state the previous one left. The events: typing in the input field,
  clicking the suggestion with a given index, pressing Enter or the send button at a
  given clock value, the remote call settling at a given clock value, and the clear
  button. The suggestion buttons are rendered only while the transcript is empty; a call
  can settle only if one is in flight.
\<close>

datatype event =
    Change jsstring
  | Suggest nat
  | Send int
  | Settle outcome int
  | Clear

fun step :: "app \<Rightarrow> event \<Rightarrow> app option" where
  "step s (Change v) = Some (setInput v s)"
| "step s (Suggest i) =
     (if messages s = [] \<and> i < length suggestions
      then Some (setInput (suggestions ! i) s) else None)"
| "step s (Send now) = Some (handleSend_begin now s)"
| "step s (Settle out now) =
     (if inFlight s = 0 then None else Some (handleSend_resume out now s))"
| "step s Clear = Some (clearChat s)"

fun run :: "app \<Rightarrow> event list \<Rightarrow> app option" where
  "run s [] = Some s"
| "run s (e # es) = (case step s e of None \<Rightarrow> None | Some s' \<Rightarrow> run s' es)"

text \<open>
  The state once the component is mounted and its first effect has created the handle.
  The effect runs before any event is dispatched, so no handler sees the reference
  unset.
\<close>

definition init :: app where
  "init = \<lparr>messages = [], input = [], isLoading = False,
           chatInstance = chats_create, inFlight = 0\<rparr>"

text \<open>
  The events the input field can raise while a reply is awaited: typing and Enter. (The
  suggestion buttons are not rendered once the transcript has a message.)
\<close>

fun input_event :: "event \<Rightarrow> bool" where
  "input_event (Change v) = True"
| "input_event (Send now) = True"
| "input_event e = False"

section \<open>Basic facts\<close>

lemma all_dropWhile: "(\<forall>x\<in>set (dropWhile P s). P x) \<longleftrightarrow> (\<forall>x\<in>set s. P x)"
  by (induction s) auto

lemma trim_Nil_iff: "trim s = [] \<longleftrightarrow> (\<forall>c\<in>set s. isWhiteSpace c)"
  by (simp add: trim_def all_dropWhile)

lemma fallback_no_text_nonempty: "fallback_no_text \<noteq> []"
  by (simp add: fallback_no_text_def)

lemma fallback_no_server_nonempty: "fallback_no_server \<noteq> []"
  by (simp add: fallback_no_server_def)

lemma text_or_nonempty: "d \<noteq> [] \<Longrightarrow> text_or t d \<noteq> []"
  by (simp add: text_or_def split: option.splits)

lemma handleSend_begin_blocked:
  "trim (input s) = [] \<or> isLoading s \<Longrightarrow> handleSend_begin now s = s"
  by (simp add: handleSend_begin_def)

lemma handleSend_begin_accepted:
  "trim (input s) \<noteq> [] \<Longrightarrow> \<not> isLoading s \<Longrightarrow>
   handleSend_begin now s =
     s\<lparr>messages := messages s @ [\<lparr>role = User, content = input s, msg_id = toString now\<rparr>],
       input := [], isLoading := True,
       chatInstance := sendMessage (input s) (chatInstance s),
       inFlight := Suc (inFlight s)\<rparr>"
  by (simp add: handleSend_begin_def)

lemma handleSend_resume_eq:
  "handleSend_resume out now s =
     s\<lparr>messages := messages s @
          [\<lparr>role = Model,
            content = (case out of Rejected \<Rightarrow> fallback_no_server
                       | Resolved t \<Rightarrow> text_or t fallback_no_text),
            msg_id = toString (now + 1)\<rparr>],
       isLoading := False, inFlight := inFlight s - 1\<rparr>"
  by (cases out) (simp_all add: handleSend_resume_def try_body_def errorMessage_def)

lemma run_append:
  "run s (es @ fs) = (case run s es of None \<Rightarrow> None | Some s' \<Rightarrow> run s' fs)"
  by (induction es arbitrary: s) (auto split: option.splits)

lemma step_input_event_loading:
  "isLoading s \<Longrightarrow> input_event e \<Longrightarrow>
   \<exists>s'. step s e = Some s' \<and> messages s' = messages s \<and> isLoading s' \<and>
        inFlight s' = inFlight s \<and> chatInstance s' = chatInstance s"
  by (cases e) (simp_all add: setInput_def handleSend_begin_blocked)

lemma run_input_events_loading:
  "isLoading s \<Longrightarrow> list_all input_event es \<Longrightarrow>
   \<exists>s'. run s es = Some s' \<and> messages s' = messages s \<and> isLoading s' \<and>
        inFlight s' = inFlight s \<and> chatInstance s' = chatInstance s"
proof (induction es arbitrary: s)
  case Nil
  then show ?case by simp
next
  case (Cons e es)
  from Cons.prems obtain s1 where s1: "step s e = Some s1" "messages s1 = messages s"
    "isLoading s1" "inFlight s1 = inFlight s" "chatInstance s1 = chatInstance s"
    using step_input_event_loading [of s e] by auto
  from Cons.IH [OF s1(3)] Cons.prems(2) obtain s2 where
    "run s1 es = Some s2" "messages s2 = messages s1" "isLoading s2"
    "inFlight s2 = inFlight s1" "chatInstance s2 = chatInstance s1"
    by auto
  with s1 show ?case by simp
qed

lemma step_serial:
  "inFlight s = (if isLoading s then 1 else 0) \<Longrightarrow> step s e = Some s' \<Longrightarrow>
   inFlight s' = (if isLoading s' then 1 else 0)"
  by (cases e)
     (auto simp: setInput_def handleSend_begin_def handleSend_resume_eq clearChat_def Let_def
           split: if_splits)

lemma run_serial:
  "inFlight s = (if isLoading s then 1 else 0) \<Longrightarrow> run s es = Some s' \<Longrightarrow>
   inFlight s' = (if isLoading s' then 1 else 0)"
proof (induction es arbitrary: s)
  case Nil
  then show ?case by simp
next
  case (Cons e es)
  then show ?case
    by (auto split: option.splits dest: step_serial)
qed

lemma init_serial: "inFlight init = (if isLoading init then 1 else 0)"
  by (simp add: init_def)

lemma step_flag_change:
  "inFlight s = (if isLoading s then 1 else 0) \<Longrightarrow> step s e = Some s' \<Longrightarrow>
     (isLoading s' = isLoading s \<and> inFlight s' = inFlight s) \<or>
     (\<not> isLoading s \<and> isLoading s' \<and> (\<exists>t. e = Send t) \<and> trim (input s) \<noteq> []
        \<and> inFlight s' = Suc (inFlight s)) \<or>
     (isLoading s \<and> \<not> isLoading s' \<and> (\<exists>out t. e = Settle out t)
        \<and> inFlight s' = inFlight s - 1)"
  by (cases e)
     (auto simp: setInput_def handleSend_begin_def handleSend_resume_eq clearChat_def Let_def
           split: if_splits)

lemma step_messages:
  "step s e = Some s' \<Longrightarrow>
     messages s' = messages s \<or> (\<exists>m. messages s' = messages s @ [m]) \<or>
     (e = Clear \<and> messages s' = [])"
  by (cases e)
     (auto simp: setInput_def handleSend_begin_def handleSend_resume_eq clearChat_def Let_def
           split: if_splits)

lemma run_messages_extend:
  "run s es = Some s' \<Longrightarrow> Clear \<notin> set es \<Longrightarrow> \<exists>ms. messages s' = messages s @ ms"
proof (induction es arbitrary: s)
  case Nil
  then show ?case by simp
next
  case (Cons e es)
  from Cons.prems obtain s1 where s1: "step s e = Some s1" "run s1 es = Some s'"
    by (auto split: option.splits)
  from Cons.prems(2) have ne: "e \<noteq> Clear" "Clear \<notin> set es" by auto
  from step_messages [OF s1(1)] ne(1) obtain ms1 where "messages s1 = messages s @ ms1"
    by auto
  moreover from Cons.IH [OF s1(2) ne(2)] obtain ms2 where "messages s' = messages s1 @ ms2"
    by auto
  ultimately show ?case by simp
qed

lemma trim_Nil [simp]: "trim [] = []"
  by (simp add: trim_def)

lemma step_contents:
  "\<forall>m\<in>set (messages s). content m \<noteq> [] \<and> (role m = User \<longrightarrow> trim (content m) \<noteq> []) \<Longrightarrow>
   step s e = Some s' \<Longrightarrow>
   \<forall>m\<in>set (messages s'). content m \<noteq> [] \<and> (role m = User \<longrightarrow> trim (content m) \<noteq> [])"
  by (cases e)
     (auto simp: setInput_def handleSend_begin_def handleSend_resume_eq clearChat_def Let_def
                 text_or_nonempty fallback_no_text_nonempty fallback_no_server_nonempty
           split: if_splits outcome.splits)

lemma run_contents:
  "\<forall>m\<in>set (messages s). content m \<noteq> [] \<and> (role m = User \<longrightarrow> trim (content m) \<noteq> []) \<Longrightarrow>
   run s es = Some s' \<Longrightarrow>
   \<forall>m\<in>set (messages s'). content m \<noteq> [] \<and> (role m = User \<longrightarrow> trim (content m) \<noteq> [])"
proof (induction es arbitrary: s)
  case Nil
  then show ?case by simp
next
  case (Cons e es)
  from Cons.prems(2) obtain s1 where s1: "step s e = Some s1" "run s1 es = Some s'"
    by (auto split: option.splits)
  from Cons.prems(1) s1(1)
  have "\<forall>m\<in>set (messages s1). content m \<noteq> [] \<and> (role m = User \<longrightarrow> trim (content m) \<noteq> [])"
    by (rule step_contents)
  then show ?case using s1(2) by (rule Cons.IH)
qed

lemma settle_content:
  "step s (Settle out now) = Some s' \<Longrightarrow>
   \<exists>m. messages s' = messages s @ [m] \<and> role m = Model \<and> content m \<noteq> [] \<and>
       (content m = fallback_no_text \<or> content m = fallback_no_server \<or>
        out = Resolved (Some (content m)))"
  by (cases out)
     (auto simp: handleSend_resume_eq text_or_def fallback_no_text_nonempty
                 fallback_no_server_nonempty split: if_splits option.splits)

lemma send_content:
  "step s (Send now) = Some s' \<Longrightarrow>
   messages s' = messages s \<or>
   (\<exists>m. messages s' = messages s @ [m] \<and> role m = User \<and> content m = input s \<and>
        trim (content m) \<noteq> [] \<and> content m \<noteq> [])"
  by (auto simp: handleSend_begin_def Let_def split: if_splits)

lemma trim_hi: "trim (js ''hi'') \<noteq> []"
  by (simp add: js_def trim_def isWhiteSpace_def)

lemma begin_hi:
  "handleSend_begin 1000 (setInput (js ''hi'') init) =
     init\<lparr>messages := [\<lparr>role = User, content = js ''hi'', msg_id = toString 1000\<rparr>],
          isLoading := True,
          chatInstance := sendMessage (js ''hi'') chats_create, inFlight := 1\<rparr>"
  by (simp add: handleSend_begin_def setInput_def init_def trim_hi)

section \<open>Properties\<close>

subsection \<open>A submission appends two messages\<close>

text \<open>
  C1. When the trimmed input is not empty and no reply is awaited, \<open>handleSend\<close>
  appends one user message with exactly the input as content at once; whatever is typed
  or submitted while the call is in flight leaves the transcript alone; and when the call
  settles, resolved or rejected, one model message (the reply text or an apology) is
  appended. The transcript is two messages longer, whatever the outcome.
\<close>

theorem submit_appends_user_then_reply:
  "trim (input s) \<noteq> [] \<Longrightarrow> \<not> isLoading s \<Longrightarrow> list_all input_event es \<Longrightarrow>
   (\<exists>s1 s2 s3.
      step s (Send t) = Some s1 \<and>
      messages s1 = messages s @ [\<lparr>role = User, content = input s, msg_id = toString t\<rparr>] \<and>
      isLoading s1 \<and>
      run s1 es = Some s2 \<and>
      messages s2 = messages s1 \<and>
      step s2 (Settle out t') = Some s3 \<and>
      messages s3 = messages s @
        [\<lparr>role = User, content = input s, msg_id = toString t\<rparr>,
         \<lparr>role = Model,
          content = (case out of Rejected \<Rightarrow> fallback_no_server
                     | Resolved r \<Rightarrow> text_or r fallback_no_text),
          msg_id = toString (t' + 1)\<rparr>] \<and>
      length (messages s3) = length (messages s) + 2 \<and>
      \<not> isLoading s3 \<and>
      run s (Send t # es @ [Settle out t']) = Some s3) \<and>
   (\<forall>sx. \<exists>m. role m = Model \<and>
      messages (handleSend_resume out t' sx) = messages sx @ [m])"
proof -
  assume a: "trim (input s) \<noteq> []" "\<not> isLoading s" and es: "list_all input_event es"
  define s1 where "s1 = handleSend_begin t s"
  have s1_eq: "s1 = s\<lparr>messages := messages s @ [\<lparr>role = User, content = input s, msg_id = toString t\<rparr>],
       input := [], isLoading := True,
       chatInstance := sendMessage (input s) (chatInstance s),
       inFlight := Suc (inFlight s)\<rparr>"
    unfolding s1_def using a by (rule handleSend_begin_accepted)
  have st1: "step s (Send t) = Some s1" by (simp add: s1_def)
  have l1: "isLoading s1" by (simp add: s1_eq)
  have m1: "messages s1 = messages s @ [\<lparr>role = User, content = input s, msg_id = toString t\<rparr>]"
    by (simp add: s1_eq)
  have f1: "inFlight s1 = Suc (inFlight s)" by (simp add: s1_eq)
  from run_input_events_loading [OF l1 es] obtain s2 where
    r2: "run s1 es = Some s2" and m2: "messages s2 = messages s1"
    and f2: "inFlight s2 = inFlight s1" by auto
  define s3 where "s3 = handleSend_resume out t' s2"
  have st3: "step s2 (Settle out t') = Some s3" by (simp add: s3_def f2 f1)
  have m3: "messages s3 = messages s @
        [\<lparr>role = User, content = input s, msg_id = toString t\<rparr>,
         \<lparr>role = Model,
          content = (case out of Rejected \<Rightarrow> fallback_no_server
                     | Resolved r \<Rightarrow> text_or r fallback_no_text),
          msg_id = toString (t' + 1)\<rparr>]"
    by (simp add: s3_def handleSend_resume_eq m2 m1)
  have l3: "\<not> isLoading s3" by (simp add: s3_def handleSend_resume_eq)
  have r3: "run s (Send t # es @ [Settle out t']) = Some s3"
    using st1 r2 st3 by (simp add: run_append)
  have len: "length (messages s3) = length (messages s) + 2" by (simp add: m3)
  have any: "\<forall>sx. \<exists>m. role m = Model \<and>
      messages (handleSend_resume out t' sx) = messages sx @ [m]"
    by (simp add: handleSend_resume_eq)
  from st1 m1 l1 r2 m2 st3 m3 len l3 r3 any show ?thesis by blast
qed

theorem submit_appends_user_then_reply_witness:
  "trim (input (setInput (suggestions ! 0) init)) \<noteq> [] \<and>
   \<not> isLoading (setInput (suggestions ! 0) init) \<and>
   list_all input_event [Change (js ''x''), Send 1500] \<and>
   (\<exists>s3. run (setInput (suggestions ! 0) init)
            [Send 1000, Change (js ''x''), Send 1500, Settle (Resolved (Some (js ''ok''))) 2000]
          = Some s3 \<and>
        messages s3 =
          [\<lparr>role = User, content = suggestions ! 0, msg_id = js ''1000''\<rparr>,
           \<lparr>role = Model, content = js ''ok'', msg_id = js ''2001''\<rparr>] \<and>
        \<not> isLoading s3)"
proof -
  have h1: "trim (input (setInput (suggestions ! 0) init)) \<noteq> []"
    by (simp add: setInput_def suggestions_def trim_def isWhiteSpace_def)
  have h2: "\<not> isLoading (setInput (suggestions ! 0) init)"
    by (simp add: setInput_def init_def)
  have h3: "list_all input_event [Change (js ''x''), Send 1500]"
    by simp
  have d1: "toString 1000 = js ''1000''" "toString 2001 = js ''2001''"
    by (simp_all add: toString_def js_def digits.simps)
  have d2: "text_or (Some (js ''ok'')) fallback_no_text = js ''ok''"
    by (simp add: text_or_def js_def)
  from submit_appends_user_then_reply [OF h1 h2 h3, of 1000 "Resolved (Some (js ''ok''))" 2000]
  obtain s3 where
    "run (setInput (suggestions ! 0) init)
       (Send 1000 # [Change (js ''x''), Send 1500] @ [Settle (Resolved (Some (js ''ok''))) 2000])
     = Some s3"
    "messages s3 = messages (setInput (suggestions ! 0) init) @
        [\<lparr>role = User, content = input (setInput (suggestions ! 0) init), msg_id = toString 1000\<rparr>,
         \<lparr>role = Model,
          content = (case Resolved (Some (js ''ok'')) of Rejected \<Rightarrow> fallback_no_server
                     | Resolved r \<Rightarrow> text_or r fallback_no_text),
          msg_id = toString (2000 + 1)\<rparr>]"
    "\<not> isLoading s3"
    by blast
  then have "run (setInput (suggestions ! 0) init)
            [Send 1000, Change (js ''x''), Send 1500, Settle (Resolved (Some (js ''ok''))) 2000]
          = Some s3 \<and>
        messages s3 =
          [\<lparr>role = User, content = suggestions ! 0, msg_id = js ''1000''\<rparr>,
           \<lparr>role = Model, content = js ''ok'', msg_id = js ''2001''\<rparr>] \<and>
        \<not> isLoading s3"
    by (simp add: d1 d2 setInput_def init_def)
  with h1 h2 h3 show ?thesis by blast
qed

subsection \<open>A rejected call\<close>

text \<open>
  C2. A rejected call is caught: the \<open>try\<close> body yields the error as a value, the
  handler still returns a state, the second message of that submission is the model
  message with the fixed apology for an unreachable server, and the loading flag is
  false afterwards.
\<close>

theorem rejected_call_appends_fallback:
  "trim (input s) \<noteq> [] \<Longrightarrow> \<not> isLoading s \<Longrightarrow>
   try_body Rejected t' = Inl RemoteCallFailed \<and>
   (\<exists>s1 s2.
      step s (Send t) = Some s1 \<and> isLoading s1 \<and>
      step s1 (Settle Rejected t') = Some s2 \<and>
      messages s2 = messages s @
        [\<lparr>role = User, content = input s, msg_id = toString t\<rparr>,
         \<lparr>role = Model, content = fallback_no_server, msg_id = toString (t' + 1)\<rparr>] \<and>
      \<not> isLoading s2)"
proof -
  assume a: "trim (input s) \<noteq> []" "\<not> isLoading s"
  define s1 where "s1 = handleSend_begin t s"
  define s2 where "s2 = handleSend_resume Rejected t' s1"
  have s1_eq: "s1 = s\<lparr>messages := messages s @ [\<lparr>role = User, content = input s, msg_id = toString t\<rparr>],
       input := [], isLoading := True,
       chatInstance := sendMessage (input s) (chatInstance s),
       inFlight := Suc (inFlight s)\<rparr>"
    unfolding s1_def using a by (rule handleSend_begin_accepted)
  have "step s (Send t) = Some s1" by (simp add: s1_def)
  moreover have "isLoading s1" by (simp add: s1_eq)
  moreover have "step s1 (Settle Rejected t') = Some s2" by (simp add: s2_def s1_eq)
  moreover have "messages s2 = messages s @
        [\<lparr>role = User, content = input s, msg_id = toString t\<rparr>,
         \<lparr>role = Model, content = fallback_no_server, msg_id = toString (t' + 1)\<rparr>]"
    by (simp add: s2_def handleSend_resume_eq s1_eq)
  moreover have "\<not> isLoading s2" by (simp add: s2_def handleSend_resume_eq)
  moreover have "try_body Rejected t' = Inl RemoteCallFailed" by (simp add: try_body_def)
  ultimately show ?thesis by blast
qed

theorem rejected_call_appends_fallback_witness:
  "trim (input (setInput (js ''hi'') init)) \<noteq> [] \<and>
   \<not> isLoading (setInput (js ''hi'') init) \<and>
   (\<exists>s1 s2.
      step (setInput (js ''hi'') init) (Send 1000) = Some s1 \<and>
      step s1 (Settle Rejected 2000) = Some s2 \<and>
      map content (messages s2) =
        [js ''hi'',
         [0x12ED, 0x1255, 0x122C, 0x1273, 0x1361, 0x0020, 0x121D, 0x1235, 0x0020, 0x1230,
          0x122D, 0x1268, 0x122D, 0x0020, 0x121D, 0x122D, 0x12BB, 0x1265, 0x0020, 0x12A3,
          0x12ED, 0x1270, 0x12BB, 0x12A5, 0x1208, 0x1295, 0x1362, 0x0020, 0x1260, 0x1303,
          0x12B9, 0x121D, 0x0020, 0x12F0, 0x1213, 0x122D, 0x0020, 0x12F0, 0x130A, 0x121D,
          0x12A9, 0x121D, 0x0020, 0x1348, 0x1275, 0x1291, 0x1362]] \<and>
      \<not> isLoading s2)"
proof -
  have h1: "trim (input (setInput (js ''hi'') init)) \<noteq> []"
    by (simp add: setInput_def js_def trim_def isWhiteSpace_def)
  have h2: "\<not> isLoading (setInput (js ''hi'') init)"
    by (simp add: setInput_def init_def)
  from rejected_call_appends_fallback [OF h1 h2, of 2000 1000]
  obtain s1 s2 where
    "step (setInput (js ''hi'') init) (Send 1000) = Some s1"
    "step s1 (Settle Rejected 2000) = Some s2"
    "messages s2 = messages (setInput (js ''hi'') init) @
        [\<lparr>role = User, content = input (setInput (js ''hi'') init), msg_id = toString 1000\<rparr>,
         \<lparr>role = Model, content = fallback_no_server, msg_id = toString (2000 + 1)\<rparr>]"
    "\<not> isLoading s2"
    by blast
  then have "step (setInput (js ''hi'') init) (Send 1000) = Some s1 \<and>
      step s1 (Settle Rejected 2000) = Some s2 \<and>
      map content (messages s2) = [js ''hi'', fallback_no_server] \<and> \<not> isLoading s2"
    by (simp add: setInput_def init_def)
  then have "\<exists>s1 s2.
      step (setInput (js ''hi'') init) (Send 1000) = Some s1 \<and>
      step s1 (Settle Rejected 2000) = Some s2 \<and>
      map content (messages s2) = [js ''hi'', fallback_no_server] \<and> \<not> isLoading s2"
    by (intro exI)
  with h1 h2 show ?thesis unfolding fallback_no_server_def [symmetric] by (intro conjI)
qed

subsection \<open>Rejection and empty reply\<close>

text \<open>
  The two apologies at work: the same submission, once rejected and once answered with
  the empty string, ends in two different message contents.
\<close>

theorem rejected_vs_empty_reply_counterexample:
  "content (last (messages (handleSend_resume Rejected 2000
       (handleSend_begin 1000 (setInput (js ''hi'') init)))))
   \<noteq> content (last (messages (handleSend_resume (Resolved (Some [])) 2000
       (handleSend_begin 1000 (setInput (js ''hi'') init)))))"
  by (simp add: handleSend_resume_eq text_or_def fallback_no_server_def fallback_no_text_def)

text \<open>
  C3. A rejected call and a resolved call with no or empty text are not given the same
  message: the apologies differ. What holds is that each gets its own fixed, non-empty
  apology as a model message: the one for an unreachable server after a rejection, the
  one for a missing reply after a response whose text is undefined or empty.
\<close>

theorem rejected_and_empty_reply_fallbacks:
  "messages (handleSend_resume Rejected now s) = messages s @
     [\<lparr>role = Model, content = fallback_no_server, msg_id = toString (now + 1)\<rparr>] \<and>
   messages (handleSend_resume (Resolved None) now s) = messages s @
     [\<lparr>role = Model, content = fallback_no_text, msg_id = toString (now + 1)\<rparr>] \<and>
   messages (handleSend_resume (Resolved (Some [])) now s) = messages s @
     [\<lparr>role = Model, content = fallback_no_text, msg_id = toString (now + 1)\<rparr>] \<and>
   fallback_no_server \<noteq> fallback_no_text \<and>
   fallback_no_server \<noteq> [] \<and> fallback_no_text \<noteq> []"
  by (simp add: handleSend_resume_eq text_or_def fallback_no_server_def fallback_no_text_def)

subsection \<open>Blocked submissions\<close>

text \<open>
  C4. Pressing send while a reply is awaited, or with an input that is empty or consists
  of white space only, changes nothing: the state after \<open>handleSend\<close> is the state
  before it, so no message is appended, no call is issued (the handle and the count of
  calls in flight are the same), and the input and the loading flag are unchanged.
\<close>

theorem submit_noop:
  "isLoading s \<or> (\<forall>c\<in>set (input s). isWhiteSpace c) \<Longrightarrow>
   handleSend_begin now s = s \<and> step s (Send now) = Some s"
  by (auto simp: handleSend_begin_blocked trim_Nil_iff)

theorem submit_noop_witness:
  "handleSend_begin 7 (init\<lparr>input := js ''hi'', isLoading := True\<rparr>)
     = init\<lparr>input := js ''hi'', isLoading := True\<rparr>
   \<and> messages (handleSend_begin 7 (init\<lparr>input := js ''  ''\<rparr>)) = []
   \<and> inFlight (handleSend_begin 7 (init\<lparr>input := js ''  ''\<rparr>)) = 0"
proof -
  have h1: "isLoading (init\<lparr>input := js ''hi'', isLoading := True\<rparr>)
            \<or> (\<forall>c\<in>set (input (init\<lparr>input := js ''hi'', isLoading := True\<rparr>)). isWhiteSpace c)"
    by simp
  have h2: "isLoading (init\<lparr>input := js ''  ''\<rparr>)
            \<or> (\<forall>c\<in>set (input (init\<lparr>input := js ''  ''\<rparr>)). isWhiteSpace c)"
    by (simp add: js_def isWhiteSpace_def)
  show ?thesis
    using submit_noop [OF h1, of 7] submit_noop [OF h2, of 7]
    by (simp add: init_def)
qed

subsection \<open>Clearing\<close>

text \<open>
  C5. \<open>clearChat\<close> leaves an empty transcript and a handle with the fixed configuration
  and nothing sent, whatever the state before; clearing twice gives the state that
  clearing once gives.
\<close>

theorem clear_resets:
  "messages (clearChat s) = [] \<and>
   chatInstance (clearChat s) = chats_create \<and>
   sent (chatInstance (clearChat s)) = [] \<and>
   systemInstruction (chatInstance (clearChat s)) = SYSTEM_INSTRUCTION \<and>
   clearChat (clearChat s) = clearChat s \<and>
   step s Clear = Some (clearChat s)"
  by (simp add: clearChat_def chats_create_def)

subsection \<open>One call at a time\<close>

text \<open>
  C6. In every state the event loop can reach there is at most one call in flight, and
  one is in flight exactly when \<open>isLoading\<close> holds. While it holds, a submission
  changes nothing and the settling of the call clears it; while it does not hold, no
  call can settle, and a submission of non-blank input sets it. These are the only two
  ways the flag ever changes: idle to awaiting on an accepted submission, awaiting to
  idle when the call settles, on either outcome.
\<close>

theorem turns_are_serialized:
  "run init es = Some s \<Longrightarrow>
   inFlight s \<le> 1 \<and>
   (isLoading s \<longleftrightarrow> inFlight s = 1) \<and>
   (isLoading s \<longrightarrow>
      step s (Send t) = Some s \<and>
      (\<exists>s'. step s (Settle out t) = Some s' \<and> \<not> isLoading s' \<and> inFlight s' = 0)) \<and>
   (\<not> isLoading s \<longrightarrow>
      step s (Settle out t) = None \<and>
      (trim (input s) \<noteq> [] \<longrightarrow>
         (\<exists>s'. step s (Send t) = Some s' \<and> isLoading s' \<and> inFlight s' = 1))) \<and>
   (\<forall>e s'. step s e = Some s' \<longrightarrow>
      (isLoading s' = isLoading s \<and> inFlight s' = inFlight s) \<or>
      (\<not> isLoading s \<and> isLoading s' \<and> (\<exists>t. e = Send t) \<and> trim (input s) \<noteq> []) \<or>
      (isLoading s \<and> \<not> isLoading s' \<and> (\<exists>out t. e = Settle out t)))"
proof -
  assume r: "run init es = Some s"
  have inv: "inFlight s = (if isLoading s then 1 else 0)"
    using init_serial r by (rule run_serial)
  have a: "inFlight s \<le> 1" using inv by simp
  have b: "isLoading s \<longleftrightarrow> inFlight s = 1" using inv by simp
  have c: "isLoading s \<longrightarrow>
      step s (Send t) = Some s \<and>
      (\<exists>s'. step s (Settle out t) = Some s' \<and> \<not> isLoading s' \<and> inFlight s' = 0)"
    using inv by (simp add: handleSend_begin_blocked handleSend_resume_eq)
  have d: "\<not> isLoading s \<longrightarrow>
      step s (Settle out t) = None \<and>
      (trim (input s) \<noteq> [] \<longrightarrow>
         (\<exists>s'. step s (Send t) = Some s' \<and> isLoading s' \<and> inFlight s' = 1))"
    using inv by (simp add: handleSend_begin_accepted)
  have e: "\<forall>e s'. step s e = Some s' \<longrightarrow>
      (isLoading s' = isLoading s \<and> inFlight s' = inFlight s) \<or>
      (\<not> isLoading s \<and> isLoading s' \<and> (\<exists>t. e = Send t) \<and> trim (input s) \<noteq> []) \<or>
      (isLoading s \<and> \<not> isLoading s' \<and> (\<exists>out t. e = Settle out t))"
    using step_flag_change [OF inv] by blast
  from a b c d e show ?thesis by blast
qed

theorem turns_are_serialized_witness:
  "run init [Change (js ''hi''), Send 1000]
     = Some (handleSend_begin 1000 (setInput (js ''hi'') init)) \<and>
   isLoading (handleSend_begin 1000 (setInput (js ''hi'') init)) \<and>
   inFlight (handleSend_begin 1000 (setInput (js ''hi'') init)) = 1 \<and>
   step (handleSend_begin 1000 (setInput (js ''hi'') init)) (Send 2000)
     = Some (handleSend_begin 1000 (setInput (js ''hi'') init)) \<and>
   run init [Change (js ''hi'')] = Some (setInput (js ''hi'') init) \<and>
   \<not> isLoading (setInput (js ''hi'') init) \<and>
   trim (input (setInput (js ''hi'') init)) \<noteq> [] \<and>
   step (setInput (js ''hi'') init) (Settle Rejected 2000) = None \<and>
   (\<exists>s'. step (setInput (js ''hi'') init) (Send 2000) = Some s' \<and> isLoading s' \<and> inFlight s' = 1)"
proof -
  have r1: "run init [Change (js ''hi''), Send 1000]
     = Some (handleSend_begin 1000 (setInput (js ''hi'') init))"
    by simp
  have l1: "isLoading (handleSend_begin 1000 (setInput (js ''hi'') init))"
    unfolding begin_hi by simp
  have r2: "run init [Change (js ''hi'')] = Some (setInput (js ''hi'') init)"
    by simp
  have l2: "\<not> isLoading (setInput (js ''hi'') init)"
    by (simp add: setInput_def init_def)
  have t2: "trim (input (setInput (js ''hi'') init)) \<noteq> []"
    by (simp add: setInput_def trim_hi)
  from turns_are_serialized [OF r1, where t = 2000 and out = Rejected] l1
  have a: "inFlight (handleSend_begin 1000 (setInput (js ''hi'') init)) = 1 \<and>
     step (handleSend_begin 1000 (setInput (js ''hi'') init)) (Send 2000)
       = Some (handleSend_begin 1000 (setInput (js ''hi'') init))"
    by blast
  from turns_are_serialized [OF r2, where t = 2000 and out = Rejected] l2 t2
  have b: "step (setInput (js ''hi'') init) (Settle Rejected 2000) = None \<and>
     (\<exists>s'. step (setInput (js ''hi'') init) (Send 2000) = Some s' \<and> isLoading s' \<and> inFlight s' = 1)"
    by blast
  note a1 = a [THEN conjunct1] and a2 = a [THEN conjunct2]
    and b1 = b [THEN conjunct1] and b2 = b [THEN conjunct2]
  show ?thesis by (intro conjI r1 l1 a1 a2 r2 l2 t2 b1 b2)
qed

subsection \<open>Message ids\<close>

text \<open>
  C7. Ids are to tell the messages of the transcript apart (they key the rendered list),
  but they are clock readings: \<open>Date.now()\<close> for a user message and
  \<open>Date.now() + 1\<close> for a reply. A reply that arrives at millisecond 5000 gets the id
  5001; a submission one millisecond later gets 5001 as well. The run below, from the
  mounted component, ends with a model message and a user message of the same id.
\<close>

theorem resubmit_reuses_reply_id:
  "run init [Change (js ''a''), Send 1000, Change (js ''c''),
             Settle (Resolved (Some (js ''b''))) 5000, Send 5001]
     = Some (handleSend_begin 5001 (handleSend_resume (Resolved (Some (js ''b''))) 5000
              (setInput (js ''c'') (handleSend_begin 1000 (setInput (js ''a'') init))))) \<and>
   map msg_id (messages (handleSend_begin 5001 (handleSend_resume (Resolved (Some (js ''b''))) 5000
              (setInput (js ''c'') (handleSend_begin 1000 (setInput (js ''a'') init))))))
     = [js ''1000'', js ''5001'', js ''5001''] \<and>
   map role (messages (handleSend_begin 5001 (handleSend_resume (Resolved (Some (js ''b''))) 5000
              (setInput (js ''c'') (handleSend_begin 1000 (setInput (js ''a'') init))))))
     = [User, Model, User] \<and>
   \<not> distinct (map msg_id (messages (handleSend_begin 5001
              (handleSend_resume (Resolved (Some (js ''b''))) 5000
              (setInput (js ''c'') (handleSend_begin 1000 (setInput (js ''a'') init)))))))"
proof -
  have d: "toString 1000 = js ''1000''" "toString 5001 = js ''5001''"
    by (simp_all add: toString_def js_def digits.simps)
  have t: "trim (js ''a'') \<noteq> []" "trim (js ''c'') \<noteq> []"
    by (simp_all add: js_def trim_def isWhiteSpace_def)
  have b: "text_or (Some (js ''b'')) fallback_no_text = js ''b''"
    by (simp add: text_or_def js_def)
  have s1: "handleSend_begin 1000 (setInput (js ''a'') init) =
      init\<lparr>messages := [\<lparr>role = User, content = js ''a'', msg_id = js ''1000''\<rparr>],
           isLoading := True,
           chatInstance := sendMessage (js ''a'') chats_create, inFlight := 1\<rparr>"
    by (simp add: handleSend_begin_def setInput_def init_def t d)
  have s2: "handleSend_begin 5001 (handleSend_resume (Resolved (Some (js ''b''))) 5000
              (setInput (js ''c'') (handleSend_begin 1000 (setInput (js ''a'') init)))) =
      init\<lparr>messages := [\<lparr>role = User, content = js ''a'', msg_id = js ''1000''\<rparr>,
                        \<lparr>role = Model, content = js ''b'', msg_id = js ''5001''\<rparr>,
                        \<lparr>role = User, content = js ''c'', msg_id = js ''5001''\<rparr>],
           isLoading := True,
           chatInstance := sendMessage (js ''c'') (sendMessage (js ''a'') chats_create),
           inFlight := 1\<rparr>"
    unfolding s1
    by (simp add: handleSend_begin_def handleSend_resume_eq setInput_def init_def t d b)
  have f: "inFlight (setInput (js ''c'') (handleSend_begin 1000 (setInput (js ''a'') init))) \<noteq> 0"
    unfolding s1 by (simp add: setInput_def)
  have r: "run init [Change (js ''a''), Send 1000, Change (js ''c''),
             Settle (Resolved (Some (js ''b''))) 5000, Send 5001]
     = Some (handleSend_begin 5001 (handleSend_resume (Resolved (Some (js ''b''))) 5000
              (setInput (js ''c'') (handleSend_begin 1000 (setInput (js ''a'') init)))))"
    by (simp add: f)
  show ?thesis unfolding r unfolding s2 by simp
qed

subsection \<open>The transcript only grows or is emptied\<close>

text \<open>
  C8. Every event leaves the transcript as it is, appends one message at its end, or (the
  clear button only) empties it; and over any run without a clear, the transcript at the
  start is an unchanged prefix of the transcript at the end.
\<close>

theorem transcript_append_only:
  "(\<forall>e s'. step s e = Some s' \<longrightarrow>
      messages s' = messages s \<or> (\<exists>m. messages s' = messages s @ [m]) \<or>
      (e = Clear \<and> messages s' = [])) \<and>
   (\<forall>es s'. run s es = Some s' \<and> Clear \<notin> set es \<longrightarrow>
      (\<exists>ms. messages s' = messages s @ ms))"
  using step_messages run_messages_extend by blast

theorem transcript_append_only_witness:
  "step (setInput (js ''hi'') init) (Send 1000)
     = Some (handleSend_begin 1000 (setInput (js ''hi'') init)) \<and>
   (messages (handleSend_begin 1000 (setInput (js ''hi'') init))
      = messages (setInput (js ''hi'') init) \<or>
    (\<exists>m. messages (handleSend_begin 1000 (setInput (js ''hi'') init))
      = messages (setInput (js ''hi'') init) @ [m]) \<or>
    (Send 1000 = Clear \<and> messages (handleSend_begin 1000 (setInput (js ''hi'') init)) = [])) \<and>
   run (setInput (js ''hi'') init) [Send 1000, Settle Rejected 2000]
     = Some (handleSend_resume Rejected 2000 (handleSend_begin 1000 (setInput (js ''hi'') init))) \<and>
   Clear \<notin> set [Send 1000, Settle Rejected 2000] \<and>
   (\<exists>ms. messages (handleSend_resume Rejected 2000
                   (handleSend_begin 1000 (setInput (js ''hi'') init)))
      = messages (setInput (js ''hi'') init) @ ms)"
proof -
  have s1: "step (setInput (js ''hi'') init) (Send 1000)
     = Some (handleSend_begin 1000 (setInput (js ''hi'') init))"
    by simp
  have f: "inFlight (handleSend_begin 1000 (setInput (js ''hi'') init)) \<noteq> 0"
    unfolding begin_hi by simp
  have r: "run (setInput (js ''hi'') init) [Send 1000, Settle Rejected 2000]
     = Some (handleSend_resume Rejected 2000 (handleSend_begin 1000 (setInput (js ''hi'') init)))"
    by (simp add: f)
  have c: "Clear \<notin> set [Send 1000, Settle Rejected 2000]"
    by simp
  from transcript_append_only [of "setInput (js ''hi'') init"] s1 r c
  show ?thesis by blast
qed

subsection \<open>Suggestions\<close>

text \<open>
  C9. Clicking a suggestion (the buttons are shown while the transcript is empty) puts
  exactly that suggestion's text into the input and changes nothing else: the
  transcript, the loading flag, the handle and the count of calls in flight are as
  before.
\<close>

theorem suggestion_sets_input_only:
  "messages s = [] \<Longrightarrow> i < length suggestions \<Longrightarrow>
   (\<exists>s'. step s (Suggest i) = Some s' \<and>
      input s' = suggestions ! i \<and>
      s' = s\<lparr>input := suggestions ! i\<rparr> \<and>
      messages s' = messages s \<and> isLoading s' = isLoading s \<and>
      chatInstance s' = chatInstance s \<and> inFlight s' = inFlight s)"
  by (simp add: setInput_def)

theorem suggestion_sets_input_only_witness:
  "(\<exists>s'. step init (Suggest 0) = Some s' \<and>
      input s' = [0x12A8, 0x1218, 0x12ED, 0x0020, 0x12A3, 0x1208, 0x12BB, 0x003F] \<and>
      messages s' = [] \<and> \<not> isLoading s' \<and> inFlight s' = 0)"
proof -
  have h1: "messages init = []" by (simp add: init_def)
  have h2: "0 < length suggestions" by (simp add: suggestions_def)
  from suggestion_sets_input_only [OF h1 h2]
  show ?thesis by (simp add: init_def suggestions_def)
qed

subsection \<open>No empty message\<close>

text \<open>
  C10. In every reachable state each message has non-empty content, and a user message
  has content that is non-empty after trimming. A submission appends nothing or the
  input, whose trimmed form is then non-empty; a settled call appends a model message
  whose content is one of the two apologies or the non-empty reply text.
\<close>

theorem message_contents_nonempty:
  "run init es = Some s \<Longrightarrow>
   (\<forall>m\<in>set (messages s). content m \<noteq> [] \<and> (role m = User \<longrightarrow> trim (content m) \<noteq> [])) \<and>
   (\<forall>now s'. step s (Send now) = Some s' \<longrightarrow>
      messages s' = messages s \<or>
      (\<exists>m. messages s' = messages s @ [m] \<and> role m = User \<and> content m = input s \<and>
           trim (content m) \<noteq> [] \<and> content m \<noteq> [])) \<and>
   (\<forall>out now s'. step s (Settle out now) = Some s' \<longrightarrow>
      (\<exists>m. messages s' = messages s @ [m] \<and> role m = Model \<and> content m \<noteq> [] \<and>
           (content m = fallback_no_text \<or> content m = fallback_no_server \<or>
            out = Resolved (Some (content m)))))"
proof -
  assume r: "run init es = Some s"
  have "\<forall>m\<in>set (messages init). content m \<noteq> [] \<and> (role m = User \<longrightarrow> trim (content m) \<noteq> [])"
    by (simp add: init_def)
  then have "\<forall>m\<in>set (messages s). content m \<noteq> [] \<and> (role m = User \<longrightarrow> trim (content m) \<noteq> [])"
    using r by (rule run_contents)
  then show ?thesis using send_content settle_content by blast
qed

theorem message_contents_nonempty_witness:
  "run init [Change (js ''hi''), Send 1000, Settle (Resolved (Some [])) 2000]
     = Some (handleSend_resume (Resolved (Some [])) 2000
              (handleSend_begin 1000 (setInput (js ''hi'') init))) \<and>
   messages (handleSend_resume (Resolved (Some [])) 2000
              (handleSend_begin 1000 (setInput (js ''hi'') init)))
     = [\<lparr>role = User, content = js ''hi'', msg_id = toString 1000\<rparr>,
        \<lparr>role = Model, content = fallback_no_text, msg_id = toString 2001\<rparr>] \<and>
   js ''hi'' \<noteq> [] \<and> trim (js ''hi'') \<noteq> [] \<and> fallback_no_text \<noteq> []"
proof -
  have f: "inFlight (handleSend_begin 1000 (setInput (js ''hi'') init)) \<noteq> 0"
    unfolding begin_hi by simp
  have r: "run init [Change (js ''hi''), Send 1000, Settle (Resolved (Some [])) 2000]
     = Some (handleSend_resume (Resolved (Some [])) 2000
              (handleSend_begin 1000 (setInput (js ''hi'') init)))"
    by (simp add: f)
  have m: "messages (handleSend_resume (Resolved (Some [])) 2000
              (handleSend_begin 1000 (setInput (js ''hi'') init)))
     = [\<lparr>role = User, content = js ''hi'', msg_id = toString 1000\<rparr>,
        \<lparr>role = Model, content = fallback_no_text, msg_id = toString 2001\<rparr>]"
    unfolding begin_hi by (simp add: handleSend_resume_eq text_or_def)
  from message_contents_nonempty [OF r]
  have "\<forall>m\<in>set (messages (handleSend_resume (Resolved (Some [])) 2000
              (handleSend_begin 1000 (setInput (js ''hi'') init)))).
      content m \<noteq> [] \<and> (role m = User \<longrightarrow> trim (content m) \<noteq> [])"
    by (rule conjunct1)
  then have c: "js ''hi'' \<noteq> [] \<and> trim (js ''hi'') \<noteq> [] \<and> fallback_no_text \<noteq> []"
    unfolding m by simp
  note c1 = c [THEN conjunct1] and c2 = c [THEN conjunct2, THEN conjunct1]
    and c3 = c [THEN conjunct2, THEN conjunct2]
  show ?thesis by (intro conjI r m c1 c2 c3)
qed

end
